theory Spec2Isabelle
  imports Main "HOL-Library.AList"
begin

section \<open>Python values and errors\<close>

text \<open>
  The exceptions the modelled code can raise. Every function that can raise returns
  \<open>pyerror + 'a\<close> with \<open>Inl\<close> for the exception. \<open>TransportError\<close> stands for the
  exceptions of the HTTPS connection to the upstream server.
\<close>

datatype pyerror = AttributeError | KeyError | IndexError | TypeError | ValueError | TransportError

type_synonym addr = nat

section \<open>lru.py: the LRU cache\<close>

text \<open>
  \<^verbatim>\<open>Node\<close> objects are mutable and linked by reference, so they live in an object store
  (\<open>addr \<Rightarrow> node\<close>); a reference is an address and Python's \<^verbatim>\<open>None\<close> is
  \<open>None\<close>. A Python reference is always valid, so the store is total and \<open>fresh\<close> is
  the next unused address. Every statement reads the store as the statements before it
  have left it, so that aliasing (a node that is its own neighbour) behaves as in Python.
\<close>

record ('k, 'v) node =
  key :: 'k
  val :: 'v
  prev :: "addr option"
  successor :: "addr option"

type_synonym ('k, 'v) nodestore = "addr \<Rightarrow> ('k, 'v) node"

text \<open>\<^verbatim>\<open>Node.remove\<close>.\<close>

definition remove :: "addr \<Rightarrow> ('k, 'v) nodestore \<Rightarrow> ('k, 'v) nodestore" where
  "remove self h =
     (let h1 = (case prev (h self) of
                  None \<Rightarrow> h
                | Some p \<Rightarrow> h(p := (h p)\<lparr>successor := successor (h self)\<rparr>));
          h2 = (case successor (h1 self) of
                  None \<Rightarrow> h1
                | Some s \<Rightarrow> h1(s := (h1 s)\<lparr>prev := prev (h1 self)\<rparr>))
      in h2(self := (h2 self)\<lparr>prev := None, successor := None\<rparr>))"

text \<open>\<^verbatim>\<open>Node.setnext\<close>.\<close>

definition setnext :: "addr \<Rightarrow> addr option \<Rightarrow> ('k, 'v) nodestore \<Rightarrow> ('k, 'v) nodestore" where
  "setnext self nxt h =
     (let h1 = h(self := (h self)\<lparr>successor := nxt\<rparr>)
      in case nxt of
           None \<Rightarrow> h1(self := (h1 self)\<lparr>prev := None\<rparr>)
         | Some n \<Rightarrow>
             (let h2 = h1(self := (h1 self)\<lparr>prev := prev (h1 n)\<rparr>);
                  h3 = h2(n := (h2 n)\<lparr>prev := Some self\<rparr>)
              in case prev (h3 self) of
                   None \<Rightarrow> h3
                 | Some p \<Rightarrow> h3(p := (h3 p)\<lparr>successor := Some self\<rparr>)))"

text \<open>
  The \<^verbatim>\<open>LRU\<close> object. \<open>size_cap\<close> is the field \<^verbatim>\<open>size\<close>; \<open>count\<close> and \<open>size_cap\<close> are
  Python integers.
\<close>

record ('k, 'v) lru =
  nodes :: "('k, 'v) nodestore"
  fresh :: addr
  count :: int
  size_cap :: int
  head :: "addr option"
  tail :: "addr option"
  index :: "'k \<rightharpoonup> addr"

text \<open>\<^verbatim>\<open>LRU.__init__\<close>; the content of the unallocated store is immaterial.\<close>

definition LRU :: "('k, 'v) nodestore \<Rightarrow> int \<Rightarrow> ('k, 'v) lru" where
  "LRU h0 sz = \<lparr>nodes = h0, fresh = 0, count = 0, size_cap = sz, head = None, tail = None,
                index = Map.empty\<rparr>"

text \<open>
  \<^verbatim>\<open>LRU.checksize\<close>: the \<^verbatim>\<open>while\<close> loop. \<^verbatim>\<open>node.key\<close> on \<^verbatim>\<open>None\<close> raises AttributeError,
  \<^verbatim>\<open>del self.index[k]\<close> on a missing key raises KeyError. The count falls by one in each
  round, so the loop ends.
\<close>

function checksize :: "('k, 'v) lru \<Rightarrow> pyerror + ('k, 'v) lru" where
  "checksize s =
     (if count s > size_cap s then
        (case tail s of
           None \<Rightarrow> Inl AttributeError
         | Some a \<Rightarrow>
             (case index s (key (nodes s a)) of
                None \<Rightarrow> Inl KeyError
              | Some _ \<Rightarrow>
                  checksize (s\<lparr>index := (index s)(key (nodes s a) := None),
                               tail := prev (nodes s a),
                               nodes := remove a (nodes s),
                               count := count s - 1\<rparr>)))
      else Inr s)"
  by pat_completeness auto
termination
  by (relation "measure (\<lambda>s. nat (count s - size_cap s))") auto

declare checksize.simps [simp del]

text \<open>\<^verbatim>\<open>LRU.__getitem__\<close>: the value, or \<^verbatim>\<open>None\<close> for a key that is not stored.\<close>

definition getitem :: "('k, 'v) lru \<Rightarrow> 'k \<Rightarrow> 'v option \<times> ('k, 'v) lru" where
  "getitem s k =
     (case index s k of
        Some a \<Rightarrow>
          (let h1 = remove a (nodes s);
               h2 = setnext a (head s) h1
           in (Some (val (h2 a)), s\<lparr>nodes := h2\<rparr>))
      | None \<Rightarrow> (None, s))"

text \<open>\<^verbatim>\<open>LRU.__setitem__\<close>.\<close>

definition setitem :: "('k, 'v) lru \<Rightarrow> 'k \<Rightarrow> 'v \<Rightarrow> pyerror + ('k, 'v) lru" where
  "setitem s k v =
     (case index s k of
        Some a \<Rightarrow>
          (let h1 = remove a (nodes s);
               h2 = setnext a (head s) h1;
               h3 = h2(a := (h2 a)\<lparr>val := v\<rparr>)
           in checksize (s\<lparr>nodes := h3, head := Some a\<rparr>))
      | None \<Rightarrow>
          (let a = fresh s;
               h1 = (nodes s)(a := \<lparr>key = k, val = v, prev = None, successor = None\<rparr>);
               tl1 = (if head s = None then Some a else tail s);
               h2 = setnext a (head s) h1
           in checksize (s\<lparr>nodes := h2, fresh := Suc a, index := (index s)(k \<mapsto> a),
                           tail := tl1, head := Some a, count := count s + 1\<rparr>)))"

text \<open>\<^verbatim>\<open>LRU.__contains__\<close>.\<close>

definition contains :: "('k, 'v) lru \<Rightarrow> 'k \<Rightarrow> bool" where
  "contains s k = (index s k \<noteq> None)"

text \<open>\<^verbatim>\<open>LRU.__delitem__\<close>.\<close>

definition delitem :: "('k, 'v) lru \<Rightarrow> 'k \<Rightarrow> pyerror + ('k, 'v) lru" where
  "delitem s k =
     (case index s k of
        Some a \<Rightarrow>
          (let tl1 = (if Some a = tail s then prev (nodes s a) else tail s);
               hd1 = (if Some a = head s then successor (nodes s a) else head s)
           in checksize (s\<lparr>tail := tl1, head := hd1, index := (index s)(k := None),
                           count := count s - 1, nodes := remove a (nodes s)\<rparr>))
      | None \<Rightarrow> checksize s)"

text \<open>A sequence of operations on one LRU; it stops at the first exception.\<close>

datatype ('k, 'v) lru_op = Get 'k | Put 'k 'v | Del 'k

fun lru_step :: "('k, 'v) lru \<Rightarrow> ('k, 'v) lru_op \<Rightarrow> pyerror + ('k, 'v) lru" where
  "lru_step s (Get k) = Inr (snd (getitem s k))"
| "lru_step s (Put k v) = setitem s k v"
| "lru_step s (Del k) = delitem s k"

fun lru_run :: "('k, 'v) lru \<Rightarrow> ('k, 'v) lru_op list \<Rightarrow> pyerror + ('k, 'v) lru" where
  "lru_run s [] = Inr s"
| "lru_run s (x # xs) = (case lru_step s x of Inl e \<Rightarrow> Inl e | Inr s' \<Rightarrow> lru_run s' xs)"

section \<open>hashdict.py: the dictionary that stores equal bodies once\<close>

text \<open>
  \<^verbatim>\<open>hashlib.sha1(x).digest()\<close> is a library function; the model takes it as the
  parameter \<open>sha1\<close>. The two dictionaries of a \<^verbatim>\<open>HashedDictionary\<close> are maps.
\<close>

record ('k, 'h, 'v) hashed_dictionary =
  content :: "'h \<rightharpoonup> 'v"
  keymap :: "'k \<rightharpoonup> 'h"

text \<open>\<^verbatim>\<open>HashedDictionary.__init__\<close>.\<close>

definition HashedDictionary :: "('k, 'h, 'v) hashed_dictionary" where
  "HashedDictionary = \<lparr>content = Map.empty, keymap = Map.empty\<rparr>"

text \<open>
  \<^verbatim>\<open>HashedDictionary.__getitem__\<close>: \<^verbatim>\<open>None\<close> for an unknown key; \<^verbatim>\<open>self.content[valhash]\<close>
  raises KeyError when the hash is not stored.
\<close>

definition hd_getitem :: "('k, 'h, 'v) hashed_dictionary \<Rightarrow> 'k \<Rightarrow> pyerror + 'v option" where
  "hd_getitem d k =
     (case keymap d k of
        Some valhash \<Rightarrow>
          (case content d valhash of None \<Rightarrow> Inl KeyError | Some v \<Rightarrow> Inr (Some v))
      | None \<Rightarrow> Inr None)"

text \<open>\<^verbatim>\<open>HashedDictionary.__setitem__\<close>, with \<^verbatim>\<open>data = (stored_data, valhashed)\<close>.\<close>

definition hd_setitem ::
  "('b \<Rightarrow> 'h) \<Rightarrow> ('k, 'h, 'v) hashed_dictionary \<Rightarrow> 'k \<Rightarrow> 'v \<times> 'b \<Rightarrow> ('k, 'h, 'v) hashed_dictionary"
where
  "hd_setitem sha1 d k data =
     (let stored_data = fst data;
          valhash = sha1 (snd data);
          d1 = d\<lparr>keymap := (keymap d)(k \<mapsto> valhash)\<rparr>
      in if content d1 valhash = None
         then d1\<lparr>content := (content d1)(valhash \<mapsto> stored_data)\<rparr>
         else d1)"

text \<open>\<^verbatim>\<open>HashedDictionary.__contains__\<close> and \<^verbatim>\<open>contains_hash\<close>.\<close>

definition hd_contains :: "('k, 'h, 'v) hashed_dictionary \<Rightarrow> 'k \<Rightarrow> bool" where
  "hd_contains d k = (keymap d k \<noteq> None)"

definition contains_hash :: "('b \<Rightarrow> 'h) \<Rightarrow> ('k, 'h, 'v) hashed_dictionary \<Rightarrow> 'b \<Rightarrow> bool" where
  "contains_hash sha1 d valhashdata = (content d (sha1 valhashdata) \<noteq> None)"

text \<open>A sequence of operations on one dictionary; it stops at the first exception.\<close>

datatype ('k, 'v, 'b) hd_op = HGet 'k | HPut 'k 'v 'b | HContains 'k | HContainsHash 'b

fun hd_step ::
  "('b \<Rightarrow> 'h) \<Rightarrow> ('k, 'h, 'v) hashed_dictionary \<Rightarrow> ('k, 'v, 'b) hd_op
   \<Rightarrow> pyerror + ('k, 'h, 'v) hashed_dictionary"
where
  "hd_step sha1 d (HGet k) = (case hd_getitem d k of Inl e \<Rightarrow> Inl e | Inr _ \<Rightarrow> Inr d)"
| "hd_step sha1 d (HPut k v b) = Inr (hd_setitem sha1 d k (v, b))"
| "hd_step sha1 d (HContains k) = Inr d"
| "hd_step sha1 d (HContainsHash b) = Inr d"

fun hd_run ::
  "('b \<Rightarrow> 'h) \<Rightarrow> ('k, 'h, 'v) hashed_dictionary \<Rightarrow> ('k, 'v, 'b) hd_op list
   \<Rightarrow> pyerror + ('k, 'h, 'v) hashed_dictionary"
where
  "hd_run sha1 d [] = Inr d"
| "hd_run sha1 d (x # xs) =
     (case hd_step sha1 d x of Inl e \<Rightarrow> Inl e | Inr d' \<Rightarrow> hd_run sha1 d' xs)"

text \<open>
  The specification's reading of \<open>content\<close>: the stored value of the first put whose raw
  bytes have the hash \<open>h\<close>.
\<close>

fun first_stored :: "('b \<Rightarrow> 'h) \<Rightarrow> 'h \<Rightarrow> ('k, 'v, 'b) hd_op list \<Rightarrow> 'v option" where
  "first_stored sha1 h [] = None"
| "first_stored sha1 h (HPut k v b # xs) =
     (if sha1 b = h then Some v else first_stored sha1 h xs)"
| "first_stored sha1 h (x # xs) = first_stored sha1 h xs"

text \<open>The hash the last put under the sub-key \<open>k\<close> recorded.\<close>

fun last_hash :: "('b \<Rightarrow> 'h) \<Rightarrow> 'k \<Rightarrow> ('k, 'v, 'b) hd_op list \<Rightarrow> 'h option \<Rightarrow> 'h option" where
  "last_hash sha1 k [] acc = acc"
| "last_hash sha1 k (HPut k' v b # xs) acc =
     last_hash sha1 k xs (if k' = k then Some (sha1 b) else acc)"
| "last_hash sha1 k (x # xs) acc = last_hash sha1 k xs acc"

section \<open>Python strings\<close>

text \<open>
  The built-in string operations the code uses, on byte strings: \<^verbatim>\<open>s.split(c)\<close> for a
  one-character separator, \<^verbatim>\<open>s.split(c, 1)\<close>, \<^verbatim>\<open>sep.join(xs)\<close>, \<^verbatim>\<open>s.strip(c)\<close>,
  \<^verbatim>\<open>s.upper()\<close>, \<^verbatim>\<open>x in s\<close> and \<^verbatim>\<open>str(n)\<close>.
\<close>

fun split :: "char \<Rightarrow> string \<Rightarrow> string list" where
  "split c [] = [[]]"
| "split c (x # xs) =
     (if x = c then [] # split c xs
      else (case split c xs of [] \<Rightarrow> [[x]] | w # ws \<Rightarrow> (x # w) # ws))"

definition split_once :: "char \<Rightarrow> string \<Rightarrow> string list" where
  "split_once c s =
     (if c \<in> set s then [takeWhile (\<lambda>x. x \<noteq> c) s, tl (dropWhile (\<lambda>x. x \<noteq> c) s)] else [s])"

fun join :: "string \<Rightarrow> string list \<Rightarrow> string" where
  "join sep [] = []"
| "join sep [x] = x"
| "join sep (x # y # ys) = x @ sep @ join sep (y # ys)"


definition upper_char :: "char \<Rightarrow> char" where
  "upper_char c =
     (case map_of (zip ''abcdefghijklmnopqrstuvwxyz'' ''ABCDEFGHIJKLMNOPQRSTUVWXYZ'') c of
        Some u \<Rightarrow> u
      | None \<Rightarrow> c)"

definition upper :: "string \<Rightarrow> string" where
  "upper s = map upper_char s"

fun is_substring :: "string \<Rightarrow> string \<Rightarrow> bool" where
  "is_substring xs [] = (xs = [])"
| "is_substring xs (y # ys) = (take (length xs) (y # ys) = xs \<or> is_substring xs ys)"

definition digit_char :: "nat \<Rightarrow> char" where
  "digit_char d = ''0123456789'' ! d"

function str_nat :: "nat \<Rightarrow> string" where
  "str_nat n = (if n < 10 then [digit_char n] else str_nat (n div 10) @ [digit_char (n mod 10)])"
  by pat_completeness auto
termination
  by (relation "measure id") auto

declare str_nat.simps [simp del]

definition str_int :: "int \<Rightarrow> string" where
  "str_int i = (if i < 0 then CHR ''-'' # str_nat (nat (- i)) else str_nat (nat i))"

section \<open>Library functions and values\<close>

text \<open>
  A parsed JSON value, as \<^verbatim>\<open>json.loads\<close> returns it. A Python \<^verbatim>\<open>dict\<close> is an association
  list with distinct keys, read with \<open>map_of\<close> and written with \<open>AList.update\<close>; the order
  of the list stands for the iteration order of the dictionary, which Python leaves open.
\<close>

datatype json =
  JNull | JBool bool | JInt int | JFloat string | JStr string | JList "json list"
  | JDict "(string \<times> json) list"

type_synonym table = "(string \<times> json) list"

text \<open>
  A value of the query dictionary: \<^verbatim>\<open>parse_qs\<close> gives lists of strings, \<^verbatim>\<open>_fetchtable\<close>
  stores plain strings and, for a request without access token, \<^verbatim>\<open>None\<close>.
\<close>

datatype qval = QList "string list" | QStr string | QNone

type_synonym header = "string \<times> string"

record http_response =
  status :: int
  reason :: string
  getheaders :: "header list"
  body :: string

text \<open>
  The functions of the standard library and the upstream server are parameters of the
  model: \<^verbatim>\<open>hashlib.sha1(x).digest()\<close>, \<^verbatim>\<open>urllib.urlencode\<close>, \<^verbatim>\<open>urlparse.parse_qs\<close>,
  \<^verbatim>\<open>json.loads\<close> (\<open>Inl ValueError\<close> for text that is not JSON), \<^verbatim>\<open>json.dumps\<close> of a
  dictionary, and \<^verbatim>\<open>ProxyRequestHandler.fetchurl(reqtype, path, querystring, server)\<close>,
  the HTTPS request to the Graph API server, which may fail.
\<close>

record lib =
  py_sha1 :: "string \<Rightarrow> string"
  py_urlencode :: "(string \<times> qval) list \<Rightarrow> string"
  py_parse_qs :: "string \<Rightarrow> (string \<times> string list) list"
  json_loads :: "string \<Rightarrow> pyerror + json"
  json_dumps :: "table \<Rightarrow> string"
  fetchurl :: "string \<Rightarrow> string \<Rightarrow> string \<Rightarrow> string \<Rightarrow> pyerror + http_response"

text \<open>\<^verbatim>\<open>xs[0]\<close> on a list.\<close>

fun first :: "'a list \<Rightarrow> pyerror + 'a" where
  "first (x # xs) = Inr x"
| "first [] = Inl IndexError"

section \<open>requesthandler.py: access tokens\<close>

text \<open>
  \<^verbatim>\<open>ProxyRequestHandler.parse_access_token\<close>: the four pieces of the token, or \<^verbatim>\<open>False\<close>
  (here \<open>None\<close>). \<^verbatim>\<open>acctoken_firstsplit[1]\<close> raises IndexError for a token without
  \<^verbatim>\<open>-\<close>, which the function catches.
\<close>

definition parse_access_token :: "string \<Rightarrow> string list option" where
  "parse_access_token acctok =
     (case split_once CHR ''-'' acctok of
        [a, b] \<Rightarrow>
          (let acctoken_all = split CHR ''|'' a @ split CHR ''|'' b
           in if length acctoken_all \<noteq> 4 then None else Some acctoken_all)
      | _ \<Rightarrow> None)"

section \<open>apps.py: applications\<close>

text \<open>
  An \<^verbatim>\<open>App\<close> object. The field \<^verbatim>\<open>id\<close> is \<open>app_id\<close>. The sets of fields and connections
  are lists without duplicates, whose order stands for the iteration order of the Python
  set (\<^verbatim>\<open>','.join(app.good_fields)\<close> depends on it); \<open>users\<close> is only tested for
  membership and is a set.
\<close>

record app =
  app_id :: string
  bad_fields :: "string list"
  bad_conns :: "string list"
  good_fields :: "string list"
  good_conns :: "string list"
  users :: "string set"
  cred :: "string option"
  secret :: "string option"

text \<open>An entry of \<^verbatim>\<open>config.apps\<close>: a dictionary with the key \<^verbatim>\<open>app_id\<close> and optional keys.\<close>

record app_config =
  cfg_app_id :: string
  cfg_app_cred :: "string option"
  cfg_app_secret :: "string option"
  cfg_blacklist_fields :: "string list option"
  cfg_blacklist_connections :: "string list option"
  cfg_whitelist_fields :: "string list option"
  cfg_whitelist_connections :: "string list option"

text \<open>\<^verbatim>\<open>App.__init__\<close>.\<close>

definition App :: "app_config \<Rightarrow> app" where
  "App config =
     (let bf = (case cfg_blacklist_fields config of None \<Rightarrow> [] | Some xs \<Rightarrow> remdups xs);
          bc = (case cfg_blacklist_connections config of None \<Rightarrow> [] | Some xs \<Rightarrow> remdups xs);
          gf = (case cfg_whitelist_fields config of None \<Rightarrow> [] | Some xs \<Rightarrow> remdups xs);
          gc = (case cfg_whitelist_connections config of None \<Rightarrow> [] | Some xs \<Rightarrow> remdups xs)
      in \<lparr>app_id = cfg_app_id config, bad_fields = bf, bad_conns = bc,
          good_fields = filter (\<lambda>x. x \<notin> set bf) gf, good_conns = filter (\<lambda>x. x \<notin> set bc) gc,
          users = {}, cred = cfg_app_cred config, secret = cfg_app_secret config\<rparr>)"

text \<open>
  \<^verbatim>\<open>App\<close> objects are mutable (\<open>users\<close> grows) and compared by identity, so they live in
  a store; the dictionary of the applications maps an id to a reference.
\<close>

type_synonym appstore = "addr \<Rightarrow> app"

text \<open>
  \<^verbatim>\<open>App.check_user\<close>: the answer and the store afterwards. The call on the default
  application passes no default, so the recursion ends there.
\<close>

function check_user ::
  "appstore \<Rightarrow> addr \<Rightarrow> string \<Rightarrow> string \<Rightarrow> addr option \<Rightarrow> bool \<times> appstore"
where
  "check_user st self requestor requestee default_app =
     (let st1 = st(self := (st self)\<lparr>users := insert requestor (users (st self))\<rparr>);
          ok = (requestee \<in> users (st1 self));
          st2 = (case default_app of
                   None \<Rightarrow> st1
                 | Some d \<Rightarrow> if d \<noteq> self then snd (check_user st1 d requestor requestee None)
                             else st1)
      in (ok, st2))"
  by pat_completeness auto
termination
  by (relation "measure (\<lambda>(st, self, requestor, requestee, default_app).
        case default_app of None \<Rightarrow> 0 | Some _ \<Rightarrow> 1)") auto

declare check_user.simps [simp del]





section \<open>cache.py: the proxy cache\<close>

text \<open>
  What a \<^verbatim>\<open>HashedDictionary\<close> of the cache stores: a tuple
  \<^verbatim>\<open>(statusline, headers, table)\<close> for a request of a user object and
  \<^verbatim>\<open>(statusline, headers, body)\<close> otherwise, or \<^verbatim>\<open>None\<close>. The third component is a
  dictionary or a string. The header list is a mutable object shared between the stored
  tuple and the response, so it lives in a store and the tuple holds its address.
\<close>

datatype payload = Tbl table | Body string

datatype cached = PyNone | Entry string addr payload

text \<open>
  The state of a \<^verbatim>\<open>ProxyLruCache\<close>: the LRU \<^verbatim>\<open>self.cache\<close>, whose values are references
  to \<^verbatim>\<open>HashedDictionary\<close> objects, the store of these objects and the store of the header
  lists. The lock is not modelled: requests are handled one after the other.
\<close>

record cache_state =
  cache :: "(string, addr) lru"
  hashdicts :: "addr \<Rightarrow> (string, string, cached) hashed_dictionary"
  hashdicts_fresh :: addr
  headerlists :: "addr \<Rightarrow> header list"
  headerlists_fresh :: addr

text \<open>\<^verbatim>\<open>ProxyLruCache.__init__\<close>.\<close>

definition ProxyLruCache :: "(string, addr) nodestore \<Rightarrow> int \<Rightarrow> cache_state" where
  "ProxyLruCache h0 sz =
     \<lparr>cache = LRU h0 sz, hashdicts = (\<lambda>_. HashedDictionary), hashdicts_fresh = 0,
      headerlists = (\<lambda>_. []), headerlists_fresh = 0\<rparr>"

text \<open>
  A function that changes the cache and may raise returns the state in both cases.
\<close>

type_synonym 'a raising = "(pyerror \<times> cache_state) + ('a \<times> cache_state)"

text \<open>\<^verbatim>\<open>fetch_tuple\<close>: \<^verbatim>\<open>response.getheaders()\<close> is a new list.\<close>

definition fetch_tuple ::
  "lib \<Rightarrow> cache_state \<Rightarrow> string \<Rightarrow> string \<Rightarrow> string \<Rightarrow> (string \<times> addr \<times> string \<times> int) raising"
where
  "fetch_tuple L cs path querystring server =
     (case fetchurl L ''GET'' path querystring server of
        Inl e \<Rightarrow> Inl (e, cs)
      | Inr response \<Rightarrow>
          (let statusline = str_int (status response) @ '' '' @ reason response;
               headers = headerlists_fresh cs
           in Inr ((statusline, headers, body response, status response),
                   cs\<lparr>headerlists := (headerlists cs)(headers := getheaders response),
                      headerlists_fresh := Suc headers\<rparr>)))"

text \<open>
  \<^verbatim>\<open>_response_to_table\<close>. Only ValueError is caught; \<^verbatim>\<open>bodyjson.iteritems()\<close> raises
  AttributeError when the parsed value is not a dictionary.
\<close>

definition response_to_table :: "lib \<Rightarrow> string \<Rightarrow> pyerror + table" where
  "response_to_table L body_text =
     (case json_loads L body_text of
        Inl ValueError \<Rightarrow> Inr []
      | Inl e \<Rightarrow> Inl e
      | Inr (JDict bodyjson) \<Rightarrow> Inr (fold (\<lambda>(k, v) table. AList.update k v table) bodyjson [])
      | Inr _ \<Rightarrow> Inl AttributeError)"

text \<open>
  \<^verbatim>\<open>get_response\<close>. The loop over all fields reads \<^verbatim>\<open>key[0]\<close>, an IndexError for
  the empty key.
\<close>

fun all_public :: "table \<Rightarrow> table \<Rightarrow> pyerror + table" where
  "all_public [] ret = Inr ret"
| "all_public ((k, v) # kvs) ret =
     (case k of
        [] \<Rightarrow> Inl IndexError
      | c # _ \<Rightarrow> if c \<noteq> CHR ''_'' then all_public kvs (AList.update k v ret)
                 else all_public kvs ret)"

definition pick_fields :: "table \<Rightarrow> string list \<Rightarrow> table" where
  "pick_fields table fieldlist =
     fold (\<lambda>field ret. case map_of table field of Some v \<Rightarrow> AList.update field v ret | None \<Rightarrow> ret)
       fieldlist []"

text \<open>
  A string in the place of the table: \<^verbatim>\<open>field in table\<close> is then the substring test and
  \<^verbatim>\<open>table[field]\<close> a TypeError; a string has no \<^verbatim>\<open>iteritems\<close>.
\<close>

definition get_response :: "lib \<Rightarrow> payload \<Rightarrow> string option \<Rightarrow> pyerror + string" where
  "get_response L table fieldspec =
     (case table of
        Tbl t \<Rightarrow>
          (case fieldspec of
             Some (c # cs) \<Rightarrow> Inr (json_dumps L (pick_fields t (split CHR '','' (c # cs))))
           | _ \<Rightarrow> (case all_public t [] of Inl e \<Rightarrow> Inl e | Inr ret \<Rightarrow> Inr (json_dumps L ret)))
      | Body s \<Rightarrow>
          (case fieldspec of
             Some (c # cs) \<Rightarrow>
               (if list_ex (\<lambda>field. is_substring field s) (split CHR '','' (c # cs))
                then Inl TypeError else Inr (json_dumps L []))
           | _ \<Rightarrow> Inl AttributeError))"

text \<open>
  The removal of the first Content-Length header in \<^verbatim>\<open>handle_request\<close>
  (\<^verbatim>\<open>headers.remove(header); break\<close>), on the list itself.
\<close>

definition strip_content_length :: "header list \<Rightarrow> header list" where
  "strip_content_length headers =
     (case find (\<lambda>header. upper (fst header) = ''CONTENT-LENGTH'') headers of
        None \<Rightarrow> headers
      | Some header \<Rightarrow> remove1 header headers)"

text \<open>
  \<^verbatim>\<open>_fetchtable\<close>. \<open>hashdict\<close> is the reference of the dictionary. The result is the tuple
  the code returns, whose third component is the body for a status other than 200 and
  the stored third component otherwise. Unpacking \<^verbatim>\<open>None\<close> is a TypeError.
\<close>

definition fetchtable ::
  "lib \<Rightarrow> cache_state \<Rightarrow> (string \<times> qval) list \<Rightarrow> string \<Rightarrow> string option \<Rightarrow> app
   \<Rightarrow> addr \<Rightarrow> string \<Rightarrow> string \<Rightarrow> (string \<times> addr \<times> payload \<times> int) raising"
where
  "fetchtable L cs query path accesstoken a hashdict k server =
     (let fieldspec = join '','' (good_fields a);
          query1 = AList.update ''fields'' (QStr fieldspec) query;
          query2 = AList.update ''access_token''
                     (case accesstoken of None \<Rightarrow> QNone | Some t \<Rightarrow> QStr t) query1
      in case fetch_tuple L cs path (py_urlencode L query2) server of
           Inl e \<Rightarrow> Inl e
         | Inr ((statusline, headers, data, statuscode), cs1) \<Rightarrow>
             if statuscode \<noteq> 200 then Inr ((statusline, headers, Body data, statuscode), cs1)
             else
               (case (if \<not> contains_hash (py_sha1 L) (hashdicts cs1 hashdict) data
                      then (case response_to_table L data of
                              Inl e \<Rightarrow> Inl e
                            | Inr table \<Rightarrow>
                                Inr (hd_setitem (py_sha1 L) (hashdicts cs1 hashdict) k
                                       (Entry statusline headers (Tbl table), data)))
                      else Inr (hd_setitem (py_sha1 L) (hashdicts cs1 hashdict) k (PyNone, data)))
                of
                  Inl e \<Rightarrow> Inl (e, cs1)
                | Inr d \<Rightarrow>
                    (let cs2 = cs1\<lparr>hashdicts := (hashdicts cs1)(hashdict := d)\<rparr>
                     in case hd_getitem d k of
                          Inl e \<Rightarrow> Inl (e, cs2)
                        | Inr (Some (Entry statusline1 headers1 table1)) \<Rightarrow>
                            Inr ((statusline1, headers1, table1, 200), cs2)
                        | Inr _ \<Rightarrow> Inl (TypeError, cs2))))"

text \<open>
  The first part of \<^verbatim>\<open>handle_request\<close>, before the lock is taken: the access token, the
  decision to use the table, the requested fields, the query without both, and the two
  keys.
\<close>

record fingerprint =
  fp_accesstoken :: "string option"
  fp_appid :: string
  fp_uid :: string
  fp_usetable :: bool
  fp_fields :: "string option"
  fp_query :: "(string \<times> string list) list"
  fp_key :: string
  fp_subkey :: string

definition request_fingerprint ::
  "lib \<Rightarrow> (string \<times> string list) list \<Rightarrow> string \<Rightarrow> pyerror + fingerprint"
where
  "request_fingerprint L query path =
     (case (case map_of query ''access_token'' of
              None \<Rightarrow> Inr (None, None, query)
            | Some v \<Rightarrow>
                (case first v of
                   Inl e \<Rightarrow> Inl e
                 | Inr tok \<Rightarrow>
                     Inr (Some tok, parse_access_token tok, AList.delete ''access_token'' query)))
      of
        Inl e \<Rightarrow> Inl e
      | Inr (accesstoken, accesstoken_parts, query1) \<Rightarrow>
          (let appid = (case accesstoken_parts of Some ps \<Rightarrow> ps ! 0 | None \<Rightarrow> ''0'');
               uid = (case accesstoken_parts of Some ps \<Rightarrow> ps ! 2 | None \<Rightarrow> ''0'');
               usetable = (CHR ''/'' \<notin> set path)
           in case (case map_of query1 ''fields'' of
                      Some v \<Rightarrow>
                        (if usetable
                         then (case first v of
                                 Inl e \<Rightarrow> Inl e
                               | Inr f \<Rightarrow> Inr (Some f, AList.delete ''fields'' query1))
                         else Inr (None, query1))
                    | None \<Rightarrow> Inr (None, query1))
              of
                Inl e \<Rightarrow> Inl e
              | Inr (fieldspec, query2) \<Rightarrow>
                  Inr \<lparr>fp_accesstoken = accesstoken, fp_appid = appid, fp_uid = uid,
                       fp_usetable = usetable, fp_fields = fieldspec, fp_query = query2,
                       fp_key = path @ ''__'' @ appid,
                       fp_subkey = uid @ ''__''
                         @ py_urlencode L (map (\<lambda>(k, v). (k, QList v)) query2)\<rparr>))"

text \<open>
  The part of \<^verbatim>\<open>handle_request\<close> under the lock: the dictionary of the key, installed
  when the key is new, and the stored value of the sub-key, if any.
\<close>

definition acquire ::
  "cache_state \<Rightarrow> string \<Rightarrow> string \<Rightarrow> pyerror + (addr \<times> cached option \<times> cache_state)"
where
  "acquire cs k subkey =
     (if contains (cache cs) k then
        (case getitem (cache cs) k of
           (Some hashdict, c1) \<Rightarrow>
             (if hd_contains (hashdicts cs hashdict) subkey
              then (case hd_getitem (hashdicts cs hashdict) subkey of
                      Inl e \<Rightarrow> Inl e
                    | Inr v \<Rightarrow> Inr (hashdict, v, cs\<lparr>cache := c1\<rparr>))
              else Inr (hashdict, None, cs\<lparr>cache := c1\<rparr>))
         | (None, c1) \<Rightarrow> Inl TypeError)
      else
        (let hashdict = hashdicts_fresh cs
         in case setitem (cache cs) k hashdict of
              Inl e \<Rightarrow> Inl e
            | Inr c1 \<Rightarrow>
                Inr (hashdict, None,
                     cs\<lparr>cache := c1, hashdicts := (hashdicts cs)(hashdict := HashedDictionary),
                        hashdicts_fresh := Suc hashdict\<rparr>)))"

text \<open>
  The outcome of a call on the cache: a value and the state; an exception raised after the
  lock was released, with the state as it was left; or an exception raised under the
  lock, which is then never released, so that no later call on the cache proceeds.
\<close>

datatype 'a outcome =
  Returned 'a cache_state | Raised pyerror cache_state | RaisedLocked pyerror

type_synonym response = "string \<times> addr \<times> payload"

text \<open>\<^verbatim>\<open>ProxyLruCache.handle_request\<close>.\<close>

definition handle_request ::
  "lib \<Rightarrow> cache_state \<Rightarrow> (string \<times> string list) list \<Rightarrow> string \<Rightarrow> string \<Rightarrow> app \<Rightarrow> string
   \<Rightarrow> response outcome"
where
  "handle_request L cs query path querystring a server =
     (case request_fingerprint L query path of
        Inl e \<Rightarrow> Raised e cs
      | Inr fp \<Rightarrow>
          (case acquire cs (fp_key fp) (fp_subkey fp) of
             Inl e \<Rightarrow> RaisedLocked e
           | Inr (hashdict, Some (Entry statusline headers p), cs1) \<Rightarrow>
               (if fp_usetable fp
                then (case get_response L p (fp_fields fp) of
                        Inl e \<Rightarrow> Raised e cs1
                      | Inr b \<Rightarrow> Returned (statusline, headers, Body b) cs1)
                else Returned (statusline, headers, p) cs1)
           | Inr (hashdict, _, cs1) \<Rightarrow>
               (if fp_usetable fp
                then (case fetchtable L cs1 (map (\<lambda>(k, v). (k, QList v)) (fp_query fp)) path
                             (fp_accesstoken fp) a hashdict (fp_subkey fp) server of
                        Inl (e, cs2) \<Rightarrow> Raised e cs2
                      | Inr ((statusline, headers, table, st), cs2) \<Rightarrow>
                          if st \<noteq> 200 then Returned (statusline, headers, table) cs2
                          else
                            (let cs3 = cs2\<lparr>headerlists := (headerlists cs2)
                                         (headers := strip_content_length (headerlists cs2 headers))\<rparr>
                             in case get_response L table (fp_fields fp) of
                                  Inl e \<Rightarrow> Raised e cs3
                                | Inr b \<Rightarrow> Returned (statusline, headers, Body b) cs3))
                else (case fetch_tuple L cs1 path querystring server of
                        Inl (e, cs2) \<Rightarrow> Raised e cs2
                      | Inr ((statusline, headers, data, st), cs2) \<Rightarrow>
                          Returned (statusline, headers, Body data)
                            (if st = 200
                             then cs2\<lparr>hashdicts := (hashdicts cs2)
                                    (hashdict := hd_setitem (py_sha1 L) (hashdicts cs2 hashdict)
                                       (fp_subkey fp) (Entry statusline headers (Body data), data))\<rparr>
                             else cs2)))))"


text \<open>
  A sequence of calls on one cache. A call that raises after the lock was released leaves
  its state to the next call; after an exception under the lock there is no next state.
\<close>

datatype cache_op =
  Request "(string \<times> string list) list" string string app string
  | Invalidate string string



section \<open>requesthandler.py: the proxy endpoint\<close>




text \<open>The entries of the WSGI environment the handler reads.\<close>

record environ =
  PATH_INFO :: string
  QUERY_STRING :: string
  REQUEST_METHOD :: string













section \<open>rtendpoint.py: the endpoint for realtime updates\<close>

text \<open>
  \<^verbatim>\<open>rturegister.randtoken\<close> is an integer (\<^verbatim>\<open>0\<close>, then \<^verbatim>\<open>random.randint(1, 1000000000)\<close>);
  the values of the parsed query are strings. \<^verbatim>\<open>==\<close> between a string and an integer is
  false in Python 2.
\<close>

datatype pyval = PStr string | PInt int

fun py_eq :: "pyval \<Rightarrow> pyval \<Rightarrow> bool" where
  "py_eq (PStr a) (PStr b) = (a = b)"
| "py_eq (PInt a) (PInt b) = (a = b)"
| "py_eq _ _ = False"

type_synonym rt_response = "string \<times> header list \<times> string"

definition bad_request :: "string \<Rightarrow> rt_response" where
  "bad_request message =
     (''400 Bad Request'', [(''Content-type'', ''text/plain'')],
      if message = [] then ''This is not a valid update'' else message)"

definition rt_forbidden :: rt_response where
  "rt_forbidden = (''403 Forbidden'', [(''Content-type'', ''text/plain'')],
                   ''Request validation failed'')"

definition success :: "string \<Rightarrow> rt_response" where
  "success message = (''200 OK'', [(''Content-type'', ''text/plain'')], message)"

text \<open>\<^verbatim>\<open>RealtimeUpdateHandler.handle_validate\<close>, with the value of \<^verbatim>\<open>randtoken\<close>.\<close>

definition handle_validate :: "lib \<Rightarrow> int \<Rightarrow> environ \<Rightarrow> pyerror + rt_response" where
  "handle_validate L randtoken env =
     (let req_data = py_parse_qs L (QUERY_STRING env)
      in case (case map_of req_data ''hub.mode'' of
                 None \<Rightarrow> Inr True
               | Some v \<Rightarrow> (case first v of Inl e \<Rightarrow> Inl e | Inr m \<Rightarrow> Inr (m \<noteq> ''subscribe'')))
         of
           Inl e \<Rightarrow> Inl e
         | Inr True \<Rightarrow> Inr (bad_request ''expecting hub.mode'')
         | Inr False \<Rightarrow>
             (case (case map_of req_data ''hub.verify_token'' of
                      None \<Rightarrow> Inr True
                    | Some v \<Rightarrow>
                        (case first v of
                           Inl e \<Rightarrow> Inl e
                         | Inr t \<Rightarrow> Inr (py_eq (PStr t) (PInt randtoken))))
              of
                Inl e \<Rightarrow> Inl e
              | Inr True \<Rightarrow> Inr rt_forbidden
              | Inr False \<Rightarrow>
                  (case map_of req_data ''hub.challenge'' of
                     None \<Rightarrow> Inr (bad_request ''Missing challenge'')
                   | Some v \<Rightarrow>
                       (case first v of Inl e \<Rightarrow> Inl e | Inr c \<Rightarrow> Inr (success c)))))"

section \<open>Notions for the properties of the cache\<close>

text \<open>The truth value of \<^verbatim>\<open>value\<close> in \<^verbatim>\<open>if value:\<close>, a tuple or \<^verbatim>\<open>None\<close>.\<close>

definition truthy :: "cached option \<Rightarrow> bool" where
  "truthy v = (case v of Some (Entry _ _ _) \<Rightarrow> True | _ \<Rightarrow> False)"







section \<open>launcher.py: the start of the proxy\<close>

definition GRAPH_SERVER :: string where
  "GRAPH_SERVER = ''graph.facebook.com''"



section \<open>Collaborators for the examples\<close>

text \<open>
  Stand-ins for the library and the upstream server, used where a concrete run is
  evaluated. \<open>parse_qs_plain\<close> and \<open>urlencode_plain\<close> do what \<^verbatim>\<open>parse_qs\<close> and \<^verbatim>\<open>urlencode\<close>
  do on text without characters to escape; the hash is the identity, which has no
  collisions; \<open>loads_example\<close> knows the bodies of the examples and \<open>dumps_flat\<close> writes a
  dictionary of strings with the separators of \<^verbatim>\<open>json.dumps\<close>.
\<close>

definition parse_qs_plain :: "string \<Rightarrow> (string \<times> string list) list" where
  "parse_qs_plain qs =
     fold (\<lambda>pair acc.
             case split_once CHR ''='' pair of
               [k, v] \<Rightarrow>
                 if v = [] then acc
                 else AList.update k (case map_of acc k of None \<Rightarrow> [v] | Some vs \<Rightarrow> vs @ [v]) acc
             | _ \<Rightarrow> acc)
       (split CHR ''&'' qs) []"

definition urlencode_plain :: "(string \<times> qval) list \<Rightarrow> string" where
  "urlencode_plain q =
     join ''&'' (map (\<lambda>(k, v). k @ ''='' @
       (case v of
          QStr s \<Rightarrow> s
        | QNone \<Rightarrow> ''None''
        | QList xs \<Rightarrow> ''['' @ join '', '' (map (\<lambda>x. [CHR 0x27] @ x @ [CHR 0x27]) xs) @ '']'')) q)"

definition body_example :: string where
  \<open>body_example = ''{"name":"X","about":"Y","_internal":"Z"}''\<close>

definition loads_example :: "string \<Rightarrow> pyerror + json" where
  "loads_example s =
     (if s = body_example
      then Inr (JDict [(''name'', JStr ''X''), (''about'', JStr ''Y''), (''_internal'', JStr ''Z'')])
      else if s = ''[1]'' then Inr (JList [JInt 1])
      else Inl ValueError)"

definition dumps_flat :: "table \<Rightarrow> string" where
  "dumps_flat t =
     ''{'' @ join '', '' (map (\<lambda>(k, v). [CHR 0x22] @ k @ [CHR 0x22] @ '': '' @
        (case v of JStr s \<Rightarrow> [CHR 0x22] @ s @ [CHR 0x22] | _ \<Rightarrow> ''null'')) t) @ ''}''"

definition upstream_example :: "int \<Rightarrow> string \<Rightarrow> string \<Rightarrow> http_response" where
  "upstream_example st rsn b =
     \<lparr>status = st, reason = rsn,
      getheaders = [(''content-length'', ''40''), (''content-type'', ''text/javascript'')],
      body = b\<rparr>"

definition lib_example :: "http_response \<Rightarrow> lib" where
  "lib_example r =
     \<lparr>py_sha1 = (\<lambda>s. s), py_urlencode = urlencode_plain, py_parse_qs = parse_qs_plain,
      json_loads = loads_example, json_dumps = dumps_flat,
      fetchurl = (\<lambda>reqtype path querystring server. Inr r)\<rparr>"


definition no_nodes :: "(string, addr) nodestore" where
  "no_nodes = (\<lambda>_. \<lparr>key = [], val = 0, prev = None, successor = None\<rparr>)"


definition config_example :: app_config where
  "config_example =
     \<lparr>cfg_app_id = ''42'', cfg_app_cred = None, cfg_app_secret = None,
      cfg_blacklist_fields = None, cfg_blacklist_connections = None,
      cfg_whitelist_fields = Some [''name'', ''about''], cfg_whitelist_connections = None\<rparr>"


section \<open>Properties of the LRU\<close>

lemmas lru_eval =
  LRU_def setitem_def getitem_def delitem_def setnext_def remove_def checksize.simps Let_def

lemma lru_three_puts:
  "\<exists>s. lru_run (LRU h0 2) [Put ''a'' va, Put ''b'' vb, Put ''c'' vc] = Inr s
       \<and> dom (index s) = {''c'', ''b''}"
  by (simp add: lru_eval)

lemma lru_get_then_put:
  "\<exists>s. lru_run (LRU h0 2) [Put ''a'' va, Put ''b'' vb, Put ''c'' vc, Get ''b'', Put ''d'' vd] = Inr s
       \<and> dom (index s) = {''d'', ''c''}"
  by (simp add: lru_eval)

text \<open>
  Claim C2. An LRU of capacity 2 after put(a), put(b), put(c) holds exactly the keys b and c.
  After the further get(b) and put(d) the code holds the keys c and d, not b and d:
  \<^verbatim>\<open>__getitem__\<close> relinks the node of b but leaves \<^verbatim>\<open>head\<close> and \<^verbatim>\<open>tail\<close> as they
  were, so \<^verbatim>\<open>tail\<close> still points at b and put(d) evicts b, the entry used last.
\<close>

theorem lru_scenario_evicts_recently_used:
  "(\<exists>s. lru_run (LRU h0 2) [Put ''a'' va, Put ''b'' vb, Put ''c'' vc] = Inr s
        \<and> dom (index s) = {''b'', ''c''})
   \<and> (\<exists>s. lru_run (LRU h0 2)
              [Put ''a'' va, Put ''b'' vb, Put ''c'' vc, Get ''b'', Put ''d'' vd] = Inr s
        \<and> dom (index s) = {''c'', ''d''} \<and> dom (index s) \<noteq> {''b'', ''d''})"
proof -
  have c: "{''c'', ''b''} = {''b'', ''c''}" and d: "{''d'', ''c''} = {''c'', ''d''}"
    by (simp_all add: insert_commute)
  have n: "{''c'', ''d''} \<noteq> {''b'', ''d''}"
    by (simp add: set_eq_iff) (rule exI [of _ "''c''"], simp)
  from lru_three_puts [of h0 va vb vc] lru_get_then_put [of h0 va vb vc vd] show ?thesis
    unfolding c d using n by metis
qed

text \<open>
  Claim C3. Not every sequence of operations completes: in an LRU of capacity 2, get(a)
  moves the node of a to the front of the list but \<^verbatim>\<open>tail\<close> keeps pointing at it, the
  next put evicts it and sets \<^verbatim>\<open>tail\<close> to \<^verbatim>\<open>None\<close>, and the put after that reads
  \<^verbatim>\<open>node.key\<close> of \<^verbatim>\<open>None\<close> in \<^verbatim>\<open>checksize\<close>.
\<close>

theorem lru_put_raises_after_get:
  "lru_run (LRU h0 2) [Put ''a'' va, Put ''b'' vb, Get ''a'', Put ''c'' vc, Put ''d'' vd]
     = Inl AttributeError"
  by (simp add: lru_eval)

section \<open>Properties of the hashed dictionary\<close>

text \<open>The invariant of the specification: every hash the key map names is stored.\<close>

lemma hd_setitem_closed:
  "ran (keymap d) \<subseteq> dom (content d)
   \<Longrightarrow> ran (keymap (hd_setitem sha1 d k data)) \<subseteq> dom (content (hd_setitem sha1 d k data))"
  unfolding hd_setitem_def Let_def
  by (auto simp: ran_def dom_def split: if_splits)

lemma hd_getitem_returns:
  "ran (keymap d) \<subseteq> dom (content d) \<Longrightarrow> \<exists>r. hd_getitem d k = Inr r"
  unfolding hd_getitem_def
  by (auto simp: ran_def dom_def split: option.splits)

lemma hd_step_returns:
  assumes "ran (keymap d) \<subseteq> dom (content d)"
  shows "\<exists>d'. hd_step sha1 d x = Inr d' \<and> ran (keymap d') \<subseteq> dom (content d')"
proof (cases x)
  case (HGet k)
  from hd_getitem_returns [OF assms, of k] obtain r where "hd_getitem d k = Inr r" ..
  with HGet assms show ?thesis by simp
next
  case (HPut k v b)
  with hd_setitem_closed [OF assms] show ?thesis by simp
qed (use assms in simp_all)

lemma hd_step_content:
  "hd_step sha1 d x = Inr d' \<Longrightarrow>
   content d' h = (case content d h of Some v \<Rightarrow> Some v | None \<Rightarrow> first_stored sha1 h [x])"
  by (cases x) (auto simp: hd_setitem_def Let_def split: sum.splits option.splits if_splits)

lemma hd_step_keymap:
  "hd_step sha1 d x = Inr d' \<Longrightarrow> keymap d' k = last_hash sha1 k [x] (keymap d k)"
  by (cases x) (auto simp: hd_setitem_def Let_def split: sum.splits option.splits if_splits)

lemma first_stored_Cons:
  "first_stored sha1 h (x # xs) =
     (case first_stored sha1 h [x] of Some v \<Rightarrow> Some v | None \<Rightarrow> first_stored sha1 h xs)"
  by (cases x) auto

lemma last_hash_Cons:
  "last_hash sha1 k (x # xs) acc = last_hash sha1 k xs (last_hash sha1 k [x] acc)"
  by (cases x) auto

lemma hd_run_returns:
  "ran (keymap d) \<subseteq> dom (content d) \<Longrightarrow>
   \<exists>d'. hd_run sha1 d xs = Inr d' \<and> ran (keymap d') \<subseteq> dom (content d')
     \<and> (\<forall>h. content d' h =
              (case content d h of Some v \<Rightarrow> Some v | None \<Rightarrow> first_stored sha1 h xs))
     \<and> (\<forall>k. keymap d' k = last_hash sha1 k xs (keymap d k))"
proof (induction xs arbitrary: d)
  case Nil
  then show ?case by (auto split: option.splits)
next
  case (Cons x xs)
  from hd_step_returns [OF Cons.prems] obtain d1
    where s: "hd_step sha1 d x = Inr d1" and i: "ran (keymap d1) \<subseteq> dom (content d1)"
    by blast
  from Cons.IH [OF i] obtain d'
    where r: "hd_run sha1 d1 xs = Inr d'" and i': "ran (keymap d') \<subseteq> dom (content d')"
      and c: "\<forall>h. content d' h =
                (case content d1 h of Some v \<Rightarrow> Some v | None \<Rightarrow> first_stored sha1 h xs)"
      and k: "\<forall>k. keymap d' k = last_hash sha1 k xs (keymap d1 k)"
    by blast
  have "hd_run sha1 d (x # xs) = Inr d'"
    using s r by simp
  moreover have "\<forall>h. content d' h =
      (case content d h of Some v \<Rightarrow> Some v | None \<Rightarrow> first_stored sha1 h (x # xs))"
    using c hd_step_content [OF s]
    by (simp add: first_stored_Cons [of sha1 _ x xs] split: option.splits)
  moreover have "\<forall>k. keymap d' k = last_hash sha1 k (x # xs) (keymap d k)"
    using k hd_step_keymap [OF s] by (simp add: last_hash_Cons [of sha1 _ x xs])
  ultimately show ?case using i' by blast
qed

text \<open>
  Claim C7. A put records the hash of the raw bytes under the sub-key and stores the value
  only when the hash is new; an older value for that hash stays. Every sequence of
  operations on a new dictionary completes, and afterwards every hash of the key map is
  in \<open>content\<close>, \<open>content\<close> holds for each hash the value of the first put whose raw bytes
  had it, and the key map holds for each sub-key the hash of its last put.
\<close>

theorem hashdict_put_first_value_wins:
  "keymap (hd_setitem sha1 d k (stored_value, raw)) k = Some (sha1 raw)
   \<and> content (hd_setitem sha1 d k (stored_value, raw)) (sha1 raw) =
       Some (case content d (sha1 raw) of None \<Rightarrow> stored_value | Some old \<Rightarrow> old)
   \<and> (\<exists>d'. hd_run sha1 HashedDictionary ops = Inr d'
         \<and> ran (keymap d') \<subseteq> dom (content d')
         \<and> (\<forall>h. content d' h = first_stored sha1 h ops)
         \<and> (\<forall>k. keymap d' k = last_hash sha1 k ops None))"
proof -
  have "keymap (hd_setitem sha1 d k (stored_value, raw)) k = Some (sha1 raw)"
    by (simp add: hd_setitem_def Let_def)
  moreover have "content (hd_setitem sha1 d k (stored_value, raw)) (sha1 raw) =
       Some (case content d (sha1 raw) of None \<Rightarrow> stored_value | Some old \<Rightarrow> old)"
    by (auto simp: hd_setitem_def Let_def split: option.splits)
  moreover have "\<exists>d'. hd_run sha1 HashedDictionary ops = Inr d'
         \<and> ran (keymap d') \<subseteq> dom (content d')
         \<and> (\<forall>h. content d' h = first_stored sha1 h ops)
         \<and> (\<forall>k. keymap d' k = last_hash sha1 k ops None)"
    using hd_run_returns [of HashedDictionary sha1 ops]
    by (simp add: HashedDictionary_def)
  ultimately show ?thesis by blast
qed

section \<open>Properties of the applications\<close>

text \<open>
  Claim C10. \<open>check_user\<close> answers \<open>True\<close> when requestor and requestee are the same user,
  for every application, every user and every default application: the requestor is added
  to the users of the application before the requestee is looked up.
\<close>

theorem check_user_own_data: "fst (check_user st a u u d) = True"
  by (simp add: check_user.simps Let_def)

section \<open>Properties of the realtime endpoint\<close>

lemmas example_eval =
  lib_example_def upstream_example_def parse_qs_plain_def urlencode_plain_def
  loads_example_def dumps_flat_def body_example_def split_once_def

text \<open>
  The answers of \<open>handle_validate\<close> in a handshake with \<^verbatim>\<open>hub.mode\<close> equal to
  \<^verbatim>\<open>subscribe\<close>. The token of the query is a string and \<^verbatim>\<open>randtoken\<close> an integer, so
  the comparison of the two is false for every token.
\<close>

lemma handshake_answers:
  assumes "map_of (py_parse_qs L (QUERY_STRING env)) ''hub.mode'' = Some (''subscribe'' # ms)"
  shows "(map_of (py_parse_qs L (QUERY_STRING env)) ''hub.verify_token'' = None
            \<longrightarrow> handle_validate L randtoken env = Inr rt_forbidden)
       \<and> (map_of (py_parse_qs L (QUERY_STRING env)) ''hub.verify_token'' = Some (t # ts)
            \<and> map_of (py_parse_qs L (QUERY_STRING env)) ''hub.challenge'' = None
            \<longrightarrow> handle_validate L randtoken env = Inr (bad_request ''Missing challenge''))
       \<and> (map_of (py_parse_qs L (QUERY_STRING env)) ''hub.verify_token'' = Some (t # ts)
            \<and> map_of (py_parse_qs L (QUERY_STRING env)) ''hub.challenge'' = Some (c # cs)
            \<longrightarrow> handle_validate L randtoken env = Inr (success c))"
  using assms by (simp add: handle_validate_def Let_def)

text \<open>
  Claim C9. A handshake with \<^verbatim>\<open>hub.mode\<close> equal to \<^verbatim>\<open>subscribe\<close> whose
  \<^verbatim>\<open>hub.verify_token\<close> equals the random token of the registration is to be answered
  with 403. The code does not do so: with \<^verbatim>\<open>randtoken\<close> 7 and the token \<^verbatim>\<open>7\<close> in the
  query, the text of that number as the registration sent it, the answer is 200 OK,
  text/plain, with the challenge. \<^verbatim>\<open>handle_validate\<close> compares the token with
  \<^verbatim>\<open>rturegister.randtoken\<close>, but the one is a string and the other an integer.
\<close>

theorem handshake_accepts_matching_token:
  "str_int 7 = ''7''
   \<and> handle_validate (lib_example (upstream_example 200 ''OK'' [])) 7
        \<lparr>PATH_INFO = ''/'',
         QUERY_STRING = ''hub.mode=subscribe&hub.verify_token=7&hub.challenge=c'',
         REQUEST_METHOD = ''GET''\<rparr>
       = Inr (''200 OK'', [(''Content-type'', ''text/plain'')], ''c'')"
  by (simp add: handle_validate_def Let_def example_eval success_def str_int_def
      str_nat.simps digit_char_def)

section \<open>Properties of the cache\<close>

text \<open>
  Claim C8. \<open>response_to_table\<close> gives the empty table for a body that is not JSON, but it
  is not total: for a body that is JSON and not an object, \<^verbatim>\<open>bodyjson.iteritems()\<close>
  raises AttributeError, which \<^verbatim>\<open>except ValueError\<close> does not catch.
\<close>

theorem response_to_table_raises_on_non_object:
  assumes "json_loads L b = Inr j" and "\<forall>kvs. j \<noteq> JDict kvs"
  shows "response_to_table L b = Inl AttributeError"
  using assms by (cases j) (simp_all add: response_to_table_def)

theorem response_to_table_raises_on_non_object_witness:
  "response_to_table (lib_example (upstream_example 200 ''OK'' [])) ''[1]'' = Inl AttributeError"
  using response_to_table_raises_on_non_object
    [of "lib_example (upstream_example 200 ''OK'' [])" "''[1]''" "JList [JInt 1]"]
  by (simp add: example_eval)

lemmas cache_eval =
  handle_request_def request_fingerprint_def acquire_def fetchtable_def fetch_tuple_def
  response_to_table_def get_response_def pick_fields_def strip_content_length_def
  parse_access_token_def ProxyLruCache_def HashedDictionary_def hd_setitem_def hd_getitem_def
  hd_contains_def contains_hash_def contains_def upper_def upper_char_def str_int_def
  str_nat.simps digit_char_def App_def config_example_def no_nodes_def Let_def




lemma not_truthy: "\<not> truthy v \<Longrightarrow> v = None \<or> v = Some PyNone"
  by (auto simp: truthy_def split: option.splits cached.splits)







lemma acquire_effect:
  assumes "acquire cs k subkey = Inr (hashdict, v, cs1)"
  shows "headerlists cs1 = headerlists cs \<and> headerlists_fresh cs1 = headerlists_fresh cs
         \<and> (contains (cache cs) k \<longrightarrow>
               hashdicts cs1 = hashdicts cs \<and> hashdicts_fresh cs1 = hashdicts_fresh cs
               \<and> cache cs1 = snd (getitem (cache cs) k))
         \<and> (\<not> contains (cache cs) k \<longrightarrow>
               hashdict = hashdicts_fresh cs
               \<and> hashdicts cs1 = (hashdicts cs)(hashdicts_fresh cs := HashedDictionary)
               \<and> hashdicts_fresh cs1 = Suc (hashdicts_fresh cs)
               \<and> setitem (cache cs) k (hashdicts_fresh cs) = Inr (cache cs1))"
  using assms
  by (auto simp: acquire_def Let_def split: if_splits prod.splits option.splits sum.splits)

text \<open>
  Claim C6, as the code has it. On a miss whose upstream answer has a status other than
  200 the call returns the upstream status line, headers and body as they are, and stores
  nothing in a dictionary of the cache. The LRU is changed before the fetch, by the
  lookup: by \<open>getitem\<close> when the key is stored, and otherwise by the \<open>setitem\<close> that
  installs a new, empty dictionary under the key. The application is only read.
\<close>

theorem non_200_is_passed_on_and_not_stored:
  assumes fp: "request_fingerprint L query path = Inr fp"
    and acq: "acquire cs (fp_key fp) (fp_subkey fp) = Inr (hashdict, v, cs1)"
    and miss: "\<not> truthy v"
    and up: "\<forall>q. fetchurl L ''GET'' path q server = Inr r"
    and bad: "status r \<noteq> 200"
  shows "handle_request L cs query path querystring a server
           = Returned (str_int (status r) @ '' '' @ reason r, headerlists_fresh cs, Body (body r))
               (cs1\<lparr>headerlists := (headerlists cs)(headerlists_fresh cs := getheaders r),
                    headerlists_fresh := Suc (headerlists_fresh cs)\<rparr>)
         \<and> (contains (cache cs) (fp_key fp) \<longrightarrow>
               hashdicts cs1 = hashdicts cs \<and> cache cs1 = snd (getitem (cache cs) (fp_key fp)))
         \<and> (\<not> contains (cache cs) (fp_key fp) \<longrightarrow>
               hashdicts cs1 = (hashdicts cs)(hashdicts_fresh cs := HashedDictionary)
               \<and> setitem (cache cs) (fp_key fp) (hashdicts_fresh cs) = Inr (cache cs1))"
proof -
  from miss have v: "v = None \<or> v = Some PyNone" by (rule not_truthy)
  note e = acquire_effect [OF acq]
  have "handle_request L cs query path querystring a server
           = Returned (str_int (status r) @ '' '' @ reason r, headerlists_fresh cs, Body (body r))
               (cs1\<lparr>headerlists := (headerlists cs)(headerlists_fresh cs := getheaders r),
                    headerlists_fresh := Suc (headerlists_fresh cs)\<rparr>)"
    using v e
    by (auto simp: handle_request_def fp acq fetchtable_def fetch_tuple_def up bad Let_def)
  with e show ?thesis by blast
qed

theorem non_200_is_passed_on_and_not_stored_witness:
  "\<exists>cs'. handle_request (lib_example (upstream_example 404 ''Not Found'' ''false''))
        (ProxyLruCache no_nodes 10) (parse_qs_plain ''access_token=42|s-u1|t&fields=name'')
        ''u1'' ''access_token=42|s-u1|t&fields=name'' (App config_example) GRAPH_SERVER
      = Returned (''404 Not Found'', 0, Body ''false'') cs'
     \<and> headerlists cs' 0 = [(''content-length'', ''40''), (''content-type'', ''text/javascript'')]
     \<and> hashdicts cs' = (\<lambda>_. HashedDictionary)"
proof -
  let ?L = "lib_example (upstream_example 404 ''Not Found'' ''false'')"
  let ?cs = "ProxyLruCache no_nodes 10 :: cache_state"
  let ?fp = "\<lparr>fp_accesstoken = Some ''42|s-u1|t'', fp_appid = ''42'', fp_uid = ''u1'',
              fp_usetable = True, fp_fields = Some ''name'', fp_query = [],
              fp_key = ''u1__42'', fp_subkey = ''u1__''\<rparr>"
  have fp: "request_fingerprint ?L (parse_qs_plain ''access_token=42|s-u1|t&fields=name'') ''u1''
              = Inr ?fp"
    by (simp add: cache_eval example_eval)
  have "\<exists>cs1. acquire ?cs (fp_key ?fp) (fp_subkey ?fp) = Inr (0, None, cs1)"
    by (simp add: cache_eval lru_eval)
  then obtain cs1 where acq: "acquire ?cs (fp_key ?fp) (fp_subkey ?fp) = Inr (0, None, cs1)" ..
  have miss: "\<not> truthy None"
    by (simp add: truthy_def)
  have up: "\<forall>q. fetchurl ?L ''GET'' ''u1'' q GRAPH_SERVER
              = Inr (upstream_example 404 ''Not Found'' ''false'')"
    by (simp add: lib_example_def)
  have bad: "status (upstream_example 404 ''Not Found'' ''false'') \<noteq> 200"
    by (simp add: upstream_example_def)
  have absent: "\<not> contains (cache ?cs) (fp_key ?fp)"
    by (simp add: contains_def ProxyLruCache_def LRU_def)
  from non_200_is_passed_on_and_not_stored [OF fp acq miss up bad] absent show ?thesis
    by (simp add: upstream_example_def str_int_def str_nat.simps digit_char_def
        ProxyLruCache_def fun_upd_idem)
qed

text \<open>
  The claim as the specification states it fails: a request on an empty cache whose
  upstream answer is 404 leaves the key \<^verbatim>\<open>u1__42\<close> in the LRU, which was empty before.
\<close>

theorem non_200_changes_lru:
  "\<exists>r cs'. handle_request (lib_example (upstream_example 404 ''Not Found'' ''false''))
        (ProxyLruCache no_nodes 10) (parse_qs_plain ''access_token=42|s-u1|t&fields=name'')
        ''u1'' ''access_token=42|s-u1|t&fields=name'' (App config_example) GRAPH_SERVER
      = Returned r cs'
     \<and> index (cache (ProxyLruCache no_nodes 10)) ''u1__42'' = None
     \<and> count (cache (ProxyLruCache no_nodes 10)) = 0
     \<and> index (cache cs') ''u1__42'' = Some 0
     \<and> count (cache cs') = 1"
  by (simp add: cache_eval lru_eval example_eval)

section \<open>The headers of cached responses\<close>


























section \<open>The first scenario, through the request handler\<close>





end
